theory Spec2Isabelle
  imports Main "HOL-Library.Word"
begin

section \<open>The NEON channel mixer of \<^verbatim>\<open>mixer_neon.c\<close>\<close>

text \<open>
  \<^verbatim>\<open>void MixChannels_NEON(int16_t* out, int8_t* data, uint8_t lvol, uint8_t rvol, int len)\<close>
  mixes eight signed 8-bit samples into sixteen interleaved signed 16-bit output values.
  The function body is a straight line of NEON intrinsics; each intrinsic is embedded
  below under its own name, with the meaning the Arm intrinsics reference gives it.
\<close>

subsection \<open>Machine integers and vector registers\<close>

text \<open>
  \<^verbatim>\<open>int8_t\<close> and \<^verbatim>\<open>uint8_t\<close> are 8-bit words, \<^verbatim>\<open>int16_t\<close> and \<^verbatim>\<open>uint16_t\<close> 16-bit
  words; \<open>sint\<close> reads a word as two's complement and \<open>uint\<close> as unsigned. A vector
  register is the list of its lanes, lane 0 first: \<^verbatim>\<open>uint8x8_t\<close> and \<^verbatim>\<open>int8x8_t\<close> hold
  eight 8-bit lanes, \<^verbatim>\<open>uint16x8_t\<close> and \<^verbatim>\<open>int16x8_t\<close> eight 16-bit lanes, and
  \<^verbatim>\<open>int16x8x2_t\<close> is the pair \<^verbatim>\<open>val[0]\<close>, \<^verbatim>\<open>val[1]\<close> of two such registers.
\<close>

type_synonym int8_t = "8 word"
type_synonym uint8_t = "8 word"
type_synonym int16_t = "16 word"
type_synonym uint16_t = "16 word"
type_synonym c_int = "32 word"

type_synonym uint8x8_t = "uint8_t list"
type_synonym int8x8_t = "int8_t list"
type_synonym uint16x8_t = "uint16_t list"
type_synonym int16x8_t = "int16_t list"
type_synonym int16x8x2_t = "int16x8_t \<times> int16x8_t"

subsection \<open>Memory, accesses and faults\<close>

text \<open>
  The two pointer arguments are modelled by the buffers they point to: \<open>out_mem\<close> is
  the array of \<^verbatim>\<open>int16_t\<close> starting at \<^verbatim>\<open>out\<close>, \<open>data_mem\<close> the array of \<^verbatim>\<open>int8_t\<close>
  starting at \<^verbatim>\<open>data\<close>; the two arrays are distinct objects. Every element a load or
  store touches is appended to \<open>accesses\<close>. A load or store that reaches past the end
  of its buffer has no defined behaviour in C; the model stops there with the fault
  \<open>OutOfBounds a\<close>, where \<open>a\<close> is the first element touched outside the buffer. The
  fault is not a value the C function returns (it returns \<^verbatim>\<open>void\<close>).
\<close>

datatype access = LoadOut nat | LoadData nat | StoreOut nat

datatype fault = OutOfBounds access

record machine =
  out_mem :: "int16_t list"
  data_mem :: "int8_t list"
  accesses :: "access list"

subsection \<open>The intrinsics\<close>

text \<open>\<^verbatim>\<open>vdup_n_u8(x)\<close>: all eight lanes are \<open>x\<close>.\<close>

definition vdup_n_u8 :: "uint8_t \<Rightarrow> uint8x8_t" where
  "vdup_n_u8 x = replicate 8 x"

text \<open>\<^verbatim>\<open>vmovl_u8\<close>: every lane zero-extended to 16 bits.\<close>

definition vmovl_u8 :: "uint8x8_t \<Rightarrow> uint16x8_t" where
  "vmovl_u8 v = map ucast v"

text \<open>\<^verbatim>\<open>vmovl_s8\<close>: every lane sign-extended to 16 bits.\<close>

definition vmovl_s8 :: "int8x8_t \<Rightarrow> int16x8_t" where
  "vmovl_s8 v = map scast v"

text \<open>
  \<^verbatim>\<open>vreinterpretq_s16_u16\<close>: the same 128 bits, from now on read as signed lanes. A
  \<open>16 word\<close> is its bit pattern, so the bits pass through unchanged; what changes is
  that later operations read the lanes with \<open>sint\<close> instead of \<open>uint\<close>.
\<close>

definition vreinterpretq_s16_u16 :: "uint16x8_t \<Rightarrow> int16x8_t" where
  "vreinterpretq_s16_u16 v = v"

text \<open>\<^verbatim>\<open>vmulq_s16\<close>: lane-wise product, the low 16 bits of each (the product wraps).\<close>

definition vmulq_s16 :: "int16x8_t \<Rightarrow> int16x8_t \<Rightarrow> int16x8_t" where
  "vmulq_s16 a b = map2 (\<lambda>x y. x * y) a b"

text \<open>\<^verbatim>\<open>vshrq_n_s16(a, n)\<close>: lane-wise arithmetic (sign-preserving) shift right by \<open>n\<close>.\<close>

definition vshrq_n_s16 :: "int16x8_t \<Rightarrow> nat \<Rightarrow> int16x8_t" where
  "vshrq_n_s16 a n = map (signed_drop_bit n) a"

text \<open>
  \<^verbatim>\<open>vqaddq_s16\<close>: lane-wise signed saturating addition. \<open>SignedSat16\<close> is the
  saturation of the exact sum to the range of \<^verbatim>\<open>int16_t\<close>.
\<close>

definition SignedSat16 :: "int \<Rightarrow> int16_t" where
  "SignedSat16 x =
     (if 32767 < x then 32767 else if x < - 32768 then - 32768 else word_of_int x)"

definition vqaddq_s16 :: "int16x8_t \<Rightarrow> int16x8_t \<Rightarrow> int16x8_t" where
  "vqaddq_s16 a b = map2 (\<lambda>x y. SignedSat16 (sint x + sint y)) a b"

text \<open>
  \<^verbatim>\<open>vld2q_s16(out)\<close>: loads the sixteen values \<^verbatim>\<open>out[0..15]\<close> and de-interleaves them:
  \<^verbatim>\<open>val[0]\<close> gets the even elements, \<^verbatim>\<open>val[1]\<close> the odd ones.
\<close>

definition vld2q_s16 :: "machine \<Rightarrow> fault + (int16x8x2_t \<times> machine)" where
  "vld2q_s16 m =
     (if length (out_mem m) < 16 then Inl (OutOfBounds (LoadOut (length (out_mem m))))
      else Inr ((map (\<lambda>i. out_mem m ! (2 * i)) [0..<8],
                 map (\<lambda>i. out_mem m ! (2 * i + 1)) [0..<8]),
                m\<lparr>accesses := accesses m @ map LoadOut [0..<16]\<rparr>))"

text \<open>\<^verbatim>\<open>vld1_s8(data)\<close>: loads the eight bytes \<^verbatim>\<open>data[0..7]\<close>.\<close>

definition vld1_s8 :: "machine \<Rightarrow> fault + (int8x8_t \<times> machine)" where
  "vld1_s8 m =
     (if length (data_mem m) < 8 then Inl (OutOfBounds (LoadData (length (data_mem m))))
      else Inr (take 8 (data_mem m),
                m\<lparr>accesses := accesses m @ map LoadData [0..<8]\<rparr>))"

text \<open>
  \<^verbatim>\<open>vst2q_s16(out, result)\<close>: interleaves the two registers and stores the sixteen
  values to \<^verbatim>\<open>out[0..15]\<close>; the rest of the buffer is not touched.
\<close>

fun interleave :: "'a list \<Rightarrow> 'a list \<Rightarrow> 'a list" where
  "interleave (a # as) (b # bs) = a # b # interleave as bs"
| "interleave _ _ = []"

definition vst2q_s16 :: "machine \<Rightarrow> int16x8x2_t \<Rightarrow> fault + machine" where
  "vst2q_s16 m v =
     (if length (out_mem m) < 16 then Inl (OutOfBounds (StoreOut (length (out_mem m))))
      else Inr (m\<lparr>out_mem := interleave (fst v) (snd v) @ drop 16 (out_mem m),
                  accesses := accesses m @ map StoreOut [0..<16]\<rparr>))"

subsection \<open>The mixer\<close>

text \<open>
  The body of \<^verbatim>\<open>MixChannels_NEON\<close>, statement by statement, with the names of the
  source. The parameter \<open>len\<close> is there because the C function has it; the body
  never mentions it.
\<close>

definition MixChannels_NEON ::
  "int16_t list \<Rightarrow> int8_t list \<Rightarrow> uint8_t \<Rightarrow> uint8_t \<Rightarrow> c_int \<Rightarrow> fault + machine" where
  "MixChannels_NEON out data lvol rvol len =
     (let m0 = \<lparr>out_mem = out, data_mem = data, accesses = []\<rparr>;
          scale_factor_l_16 = vmovl_u8 (vdup_n_u8 lvol);
          scale_factor_r_16 = vmovl_u8 (vdup_n_u8 rvol);
          scale_factor_16_l_s = vreinterpretq_s16_u16 scale_factor_l_16;
          scale_factor_16_r_s = vreinterpretq_s16_u16 scale_factor_r_16
      in case vld2q_s16 m0 of
           Inl f \<Rightarrow> Inl f
         | Inr (interleaved_audio, m1) \<Rightarrow>
             (case vld1_s8 m1 of
                Inl f \<Rightarrow> Inl f
              | Inr (data_load, m2) \<Rightarrow>
                  (let data_unpacked = vmovl_s8 data_load;
                       mul_l = vmulq_s16 data_unpacked scale_factor_16_l_s;
                       mul_r = vmulq_s16 data_unpacked scale_factor_16_r_s;
                       mixed_l = vshrq_n_s16 mul_l 8;
                       mixed_r = vshrq_n_s16 mul_r 8;
                       result = (vqaddq_s16 mixed_l (fst interleaved_audio),
                                 vqaddq_s16 mixed_r (snd interleaved_audio))
                   in vst2q_s16 m2 result)))"

text \<open>
  The contents of the output buffer, and the elements touched, after a call that ran to
  its end.
\<close>

definition output_of :: "fault + machine \<Rightarrow> int16_t list option" where
  "output_of r = (case r of Inl f \<Rightarrow> None | Inr m \<Rightarrow> Some (out_mem m))"

definition accesses_of :: "fault + machine \<Rightarrow> access list option" where
  "accesses_of r = (case r of Inl f \<Rightarrow> None | Inr m \<Rightarrow> Some (accesses m))"

subsection \<open>The scalar reference path and the declared bounds of the specification\<close>

text \<open>
  Modelled from the spec: ScalarFallback (section 4.6 of the specification) has no code
  under \<^verbatim>\<open>src/\<close>; the repository's C sources hold the vector routine only. The
  definition follows the specification's words: one source sample at a time, the
  sample and the volume widened to integers that cannot overflow (sections 4.1 and
  4.2), \<open>(s * f) >> 8\<close> on the widened product (section 4.3), the sum with the existing
  output sample clamped to \<open>[-32768, 32767]\<close> (section 4.4), left on the even and right
  on the odd index of the interleaved output (section 4.5). The last argument is the
  number of source samples to mix, the specification's \<open>length\<close>; on a valid input the
  source has exactly that many samples and the output at least twice as many values.
\<close>

definition saturate :: "int \<Rightarrow> int" where
  "saturate x = max (- 32768) (min 32767 x)"

definition ScaleAndShift :: "int \<Rightarrow> int \<Rightarrow> int" where
  "ScaleAndShift s f = drop_bit 8 (s * f)"

fun ScalarFallback ::
  "int16_t list \<Rightarrow> int8_t list \<Rightarrow> uint8_t \<Rightarrow> uint8_t \<Rightarrow> nat \<Rightarrow> int16_t list" where
  "ScalarFallback (l # r # out) (s # source) leftVolume rightVolume (Suc n) =
     word_of_int (saturate (sint l + ScaleAndShift (sint s) (uint leftVolume)))
     # word_of_int (saturate (sint r + ScaleAndShift (sint s) (uint rightVolume)))
     # ScalarFallback out source leftVolume rightVolume n"
| "ScalarFallback out source leftVolume rightVolume n = out"

text \<open>
  The bounds the specification declares for a call with \<open>N\<close> source samples (section 3):
  source indices \<open>0..N-1\<close>, output indices \<open>0..2N-1\<close>.
\<close>

fun within_declared_bounds :: "nat \<Rightarrow> access \<Rightarrow> bool" where
  "within_declared_bounds N (LoadData i) = (i < N)"
| "within_declared_bounds N (LoadOut i) = (i < 2 * N)"
| "within_declared_bounds N (StoreOut i) = (i < 2 * N)"

section \<open>Lanes\<close>

text \<open>Ranges of the two 8-bit inputs, and of their product.\<close>

lemma sint8_bounds: "- 128 \<le> sint (s :: 8 word) \<and> sint s \<le> 127"
  using sint_ge [of s] sint_lt [of s] by simp

lemma uint8_bounds: "0 \<le> uint (v :: 8 word) \<and> uint v \<le> 255"
  using uint_lt2p [of v] by simp

lemma product_bounds:
  fixes a b :: int
  assumes "- 128 \<le> a" "a \<le> 127" "0 \<le> b" "b \<le> 255"
  shows "- 32640 \<le> a * b \<and> a * b \<le> 32385"
proof -
  have "a * b \<le> 127 * b"
    using assms by (intro mult_right_mono) auto
  moreover have "- 128 * b \<le> a * b"
    using assms by (intro mult_right_mono) auto
  ultimately show ?thesis
    using assms by auto
qed

text \<open>One lane of the widenings, the multiply and the shift.\<close>

lemma sint_vmovl_s8_lane: "sint (scast (s :: 8 word) :: 16 word) = sint s"
  by (simp add: sint_up_scast is_up)

lemma uint_vmovl_u8_lane: "uint (ucast (v :: 8 word) :: 16 word) = uint v"
  by (simp add: uint_up_ucast is_up)

lemma sint_vmovl_u8_lane: "sint (ucast (v :: 8 word) :: 16 word) = uint v"
proof -
  have lo: "- (2 ^ 15) \<le> uint v"
    by (rule order_trans [of _ 0]) simp_all
  have hi: "uint v < 2 ^ 15"
    using uint8_bounds [of v] by simp
  show ?thesis
    using signed_take_bit_int_eq_self [OF lo hi] by (simp add: signed_ucast_eq)
qed

lemma sint_mul_lane:
  "sint ((scast (s :: 8 word) :: 16 word) * ucast (v :: 8 word)) = sint s * uint v"
proof -
  have "- 32640 \<le> sint s * uint v \<and> sint s * uint v \<le> 32385"
    using sint8_bounds [of s] uint8_bounds [of v] by (intro product_bounds) auto
  then have "signed_take_bit 15 (sint s * uint v) = sint s * uint v"
    by (intro signed_take_bit_int_eq_self) auto
  then show ?thesis
    by (simp add: sint_word_ariths sint_vmovl_s8_lane sint_vmovl_u8_lane)
qed

lemma sint_shift_lane:
  "sint (signed_drop_bit 8 ((scast (s :: 8 word) :: 16 word) * ucast (v :: 8 word)))
     = (sint s * uint v) div 256"
  by (simp add: sint_signed_drop_bit_eq sint_mul_lane drop_bit_eq_div)

lemma shifted_product_bounds:
  "- 128 \<le> drop_bit 8 (sint (s :: 8 word) * uint (v :: 8 word)) \<and>
   drop_bit 8 (sint s * uint v) \<le> 126"
proof -
  have "- 32640 \<le> sint s * uint v \<and> sint s * uint v \<le> 32385"
    using sint8_bounds [of s] uint8_bounds [of v] by (intro product_bounds) auto
  then show ?thesis
    by (simp add: drop_bit_eq_div) linarith
qed

text \<open>The saturating sum.\<close>

lemma sint16_bounds: "- 32768 \<le> sint (w :: 16 word) \<and> sint w \<le> 32767"
  using sint_ge [of w] sint_lt [of w] by simp

lemma SignedSat16_sint: "sint (SignedSat16 x) = max (- 32768) (min 32767 x)"
  by (simp add: SignedSat16_def sint_sbintrunc' signed_take_bit_int_eq_self)

lemma SignedSat16_of_sint: "SignedSat16 (sint y) = y"
  using sint_ge [of y] sint_lt [of y] by (simp add: SignedSat16_def)

lemma SignedSat16_saturate: "SignedSat16 x = word_of_int (saturate x)"
  by (simp add: SignedSat16_def saturate_def)

lemma mixed_lane_value:
  "sint (SignedSat16 (sint (signed_drop_bit 8
                             (scast (s :: 8 word) * ucast (v :: 8 word) :: 16 word))
                      + sint y))
     = max (- 32768) (min 32767 (sint y + drop_bit 8 (sint s * uint v)))"
  by (simp add: SignedSat16_sint sint_shift_lane drop_bit_eq_div add.commute)

section \<open>Interleaving\<close>

lemma interleave_length: "length (interleave as bs) = 2 * min (length as) (length bs)"
  by (induction as bs rule: interleave.induct) auto

lemma interleave_even:
  "i < length as \<Longrightarrow> i < length bs \<Longrightarrow> interleave as bs ! (2 * i) = as ! i"
proof (induction as bs arbitrary: i rule: interleave.induct)
  case (1 a as b bs)
  then show ?case by (cases i) auto
qed auto

lemma interleave_odd:
  "i < length as \<Longrightarrow> i < length bs \<Longrightarrow> interleave as bs ! (2 * i + 1) = bs ! i"
proof (induction as bs arbitrary: i rule: interleave.induct)
  case (1 a as b bs)
  then show ?case by (cases i) auto
qed auto

text \<open>Storing what was loaded gives the buffer back.\<close>

lemma interleave_deinterleave:
  assumes "2 * n \<le> length xs"
  shows "interleave (map (\<lambda>i. xs ! (2 * i)) [0..<n]) (map (\<lambda>i. xs ! (2 * i + 1)) [0..<n])
           = take (2 * n) xs"
    (is "interleave ?E ?O = _")
proof (rule nth_equalityI)
  show "length (interleave ?E ?O) = length (take (2 * n) xs)"
    using assms by (simp add: interleave_length)
next
  fix j
  assume "j < length (interleave ?E ?O)"
  then have j: "j < 2 * n"
    by (simp add: interleave_length)
  show "interleave ?E ?O ! j = take (2 * n) xs ! j"
  proof (cases "even j")
    case True
    then obtain i where i: "j = 2 * i" by (auto elim: evenE)
    with j have "i < n" by simp
    then show ?thesis
      using j by (simp add: i interleave_even)
  next
    case False
    then obtain i where i: "j = 2 * i + 1" by (auto elim: oddE)
    with j have "i < n" by simp
    then show ?thesis
      using j interleave_odd [of i ?E ?O] by (simp add: i)
  qed
qed

section \<open>What a call computes\<close>

lemma mixed_lanes:
  assumes "8 \<le> length data"
  shows "vqaddq_s16
           (vshrq_n_s16
              (vmulq_s16 (vmovl_s8 (take 8 data))
                 (vreinterpretq_s16_u16 (vmovl_u8 (vdup_n_u8 vol)))) 8)
           (map f [0..<8])
         = map (\<lambda>i. SignedSat16
                   (sint (signed_drop_bit 8 (scast (data ! i) * ucast vol :: 16 word))
                    + sint (f i))) [0..<8]"
  using assms
  by (intro nth_equalityI)
     (simp_all add: vqaddq_s16_def vshrq_n_s16_def vmulq_s16_def vmovl_s8_def
        vreinterpretq_s16_u16_def vmovl_u8_def vdup_n_u8_def)

text \<open>With both buffers long enough for the vector loads, the call runs to its end.\<close>

lemma MixChannels_NEON_run:
  assumes "16 \<le> length out" "8 \<le> length data"
  shows "MixChannels_NEON out data lvol rvol len =
           Inr \<lparr>out_mem =
                  interleave
                    (map (\<lambda>i. SignedSat16
                       (sint (signed_drop_bit 8 (scast (data ! i) * ucast lvol :: 16 word))
                        + sint (out ! (2 * i)))) [0..<8])
                    (map (\<lambda>i. SignedSat16
                       (sint (signed_drop_bit 8 (scast (data ! i) * ucast rvol :: 16 word))
                        + sint (out ! (2 * i + 1)))) [0..<8])
                  @ drop 16 out,
                data_mem = data,
                accesses =
                  map LoadOut [0..<16] @ map LoadData [0..<8] @ map StoreOut [0..<16]\<rparr>"
  using assms
  by (simp add: MixChannels_NEON_def vld2q_s16_def vld1_s8_def vst2q_s16_def mixed_lanes
       del: upt_rec_numeral)

text \<open>With a shorter buffer, the first load that reaches past its end stops the call.\<close>

lemma MixChannels_NEON_short_out:
  "length out < 16 \<Longrightarrow>
     MixChannels_NEON out data lvol rvol len = Inl (OutOfBounds (LoadOut (length out)))"
  by (simp add: MixChannels_NEON_def vld2q_s16_def)

lemma MixChannels_NEON_short_data:
  "16 \<le> length out \<Longrightarrow> length data < 8 \<Longrightarrow>
     MixChannels_NEON out data lvol rvol len = Inl (OutOfBounds (LoadData (length data)))"
  by (simp add: MixChannels_NEON_def vld2q_s16_def vld1_s8_def)

text \<open>The output of a call that ran to its end, sample by sample.\<close>

lemma MixChannels_NEON_samples:
  assumes "16 \<le> length out" "8 \<le> length data"
  shows "\<exists>m. MixChannels_NEON out data lvol rvol len = Inr m \<and>
           length (out_mem m) = length out \<and>
           (\<forall>i<8. out_mem m ! (2 * i) =
                SignedSat16 (sint (signed_drop_bit 8 (scast (data ! i) * ucast lvol :: 16 word))
                             + sint (out ! (2 * i)))) \<and>
           (\<forall>i<8. out_mem m ! (2 * i + 1) =
                SignedSat16 (sint (signed_drop_bit 8 (scast (data ! i) * ucast rvol :: 16 word))
                             + sint (out ! (2 * i + 1)))) \<and>
           (\<forall>j\<ge>16. out_mem m ! j = out ! j) \<and>
           accesses m = map LoadOut [0..<16] @ map LoadData [0..<8] @ map StoreOut [0..<16]"
proof -
  let ?L = "map (\<lambda>i. SignedSat16
                       (sint (signed_drop_bit 8 (scast (data ! i) * ucast lvol :: 16 word))
                        + sint (out ! (2 * i)))) [0..<8]"
  let ?R = "map (\<lambda>i. SignedSat16
                       (sint (signed_drop_bit 8 (scast (data ! i) * ucast rvol :: 16 word))
                        + sint (out ! (2 * i + 1)))) [0..<8]"
  let ?m = "\<lparr>out_mem = interleave ?L ?R @ drop 16 out, data_mem = data,
             accesses = map LoadOut [0..<16] @ map LoadData [0..<8] @ map StoreOut [0..<16]\<rparr>"
  have run: "MixChannels_NEON out data lvol rvol len = Inr ?m"
    using assms by (rule MixChannels_NEON_run)
  have len16: "length (interleave ?L ?R) = 16"
    by (simp add: interleave_length del: upt_rec_numeral)
  have "length (out_mem ?m) = length out"
    using assms len16 by (simp del: upt_rec_numeral)
  moreover have "out_mem ?m ! (2 * i) = ?L ! i" if "i < 8" for i
    using that len16 interleave_even [of i ?L ?R]
    by (simp add: nth_append del: upt_rec_numeral)
  moreover have "out_mem ?m ! (2 * i + 1) = ?R ! i" if "i < 8" for i
    using that len16 interleave_odd [of i ?L ?R]
    by (simp add: nth_append del: upt_rec_numeral)
  moreover have "out_mem ?m ! j = out ! j" if "16 \<le> j" for j
    using that assms len16 by (simp add: nth_append del: upt_rec_numeral)
  ultimately show ?thesis
    using run by (auto simp del: upt_rec_numeral)
qed

section \<open>The scalar path, lane by lane\<close>

lemma twice_le_one: "2 * n \<le> Suc 0 \<longleftrightarrow> n = 0"
  by auto

lemma ScalarFallback_lanes:
  "n \<le> length source \<Longrightarrow> 2 * n \<le> length out \<Longrightarrow>
     ScalarFallback out source lv rv n =
       interleave
         (map (\<lambda>i. word_of_int (saturate (sint (out ! (2 * i))
                  + ScaleAndShift (sint (source ! i)) (uint lv)))) [0..<n])
         (map (\<lambda>i. word_of_int (saturate (sint (out ! (2 * i + 1))
                  + ScaleAndShift (sint (source ! i)) (uint rv)))) [0..<n])
       @ drop (2 * n) out"
proof (induction out source lv rv n rule: ScalarFallback.induct)
  case (1 l r out s source lv rv n)
  then show ?case
    by (simp add: map_upt_Suc del: upt_Suc)
qed (simp_all add: twice_le_one)

section \<open>The claims\<close>

text \<open>
  C10. For every volume \<open>v\<close> in \<open>[0, 255]\<close> (every value of \<^verbatim>\<open>uint8_t\<close>), widening \<open>v\<close>
  to unsigned 16-bit lanes and reinterpreting the lanes as signed 16-bit keeps the
  value: each of the eight lanes is \<open>v\<close>, read as unsigned and read as signed, for
  \<open>lvol\<close> and for \<open>rvol\<close>. So the signed multiply of the function uses the intended
  scale factor on both channels: in the output of a call, the left sample of frame \<open>i\<close>
  is the old sample plus \<open>data[i] * lvol div 256\<close> and the right sample the old sample
  plus \<open>data[i] * rvol div 256\<close> (clamped), with \<open>lvol\<close> and \<open>rvol\<close> read as
  unsigned; a volume of 128 or more is never taken as negative, so a non-negative
  sample mixed into silence gives a non-negative output sample.
\<close>

theorem scale_factor_is_volume:
  assumes "16 \<le> length out" "8 \<le> length data" "i < 8"
  shows "map uint (vmovl_u8 (vdup_n_u8 lvol)) = replicate 8 (uint lvol) \<and>
         map sint (vreinterpretq_s16_u16 (vmovl_u8 (vdup_n_u8 lvol))) = replicate 8 (uint lvol) \<and>
         map uint (vmovl_u8 (vdup_n_u8 rvol)) = replicate 8 (uint rvol) \<and>
         map sint (vreinterpretq_s16_u16 (vmovl_u8 (vdup_n_u8 rvol))) = replicate 8 (uint rvol) \<and>
         (\<exists>m. MixChannels_NEON out data lvol rvol len = Inr m \<and>
            sint (out_mem m ! (2 * i)) =
              max (- 32768) (min 32767 (sint (out ! (2 * i)) + (sint (data ! i) * uint lvol) div 256)) \<and>
            sint (out_mem m ! (2 * i + 1)) =
              max (- 32768) (min 32767 (sint (out ! (2 * i + 1)) + (sint (data ! i) * uint rvol) div 256)) \<and>
            (0 \<le> sint (data ! i) \<and> out ! (2 * i) = 0 \<longrightarrow> 0 \<le> sint (out_mem m ! (2 * i))) \<and>
            (0 \<le> sint (data ! i) \<and> out ! (2 * i + 1) = 0 \<longrightarrow> 0 \<le> sint (out_mem m ! (2 * i + 1))))"
proof -
  have lanes: "map uint (vmovl_u8 (vdup_n_u8 v)) = replicate 8 (uint v) \<and>
      map sint (vreinterpretq_s16_u16 (vmovl_u8 (vdup_n_u8 v))) = replicate 8 (uint v)"
    for v :: "8 word"
    by (simp add: vmovl_u8_def vdup_n_u8_def vreinterpretq_s16_u16_def
          uint_vmovl_u8_lane sint_vmovl_u8_lane)
  obtain m where run: "MixChannels_NEON out data lvol rvol len = Inr m"
    and left: "out_mem m ! (2 * i) =
                SignedSat16 (sint (signed_drop_bit 8 (scast (data ! i) * ucast lvol :: 16 word))
                             + sint (out ! (2 * i)))"
    and right: "out_mem m ! (2 * i + 1) =
                SignedSat16 (sint (signed_drop_bit 8 (scast (data ! i) * ucast rvol :: 16 word))
                             + sint (out ! (2 * i + 1)))"
    using MixChannels_NEON_samples [OF assms(1,2), of lvol rvol len] assms(3) by blast
  have l: "sint (out_mem m ! (2 * i)) =
      max (- 32768) (min 32767 (sint (out ! (2 * i)) + (sint (data ! i) * uint lvol) div 256))"
    unfolding left by (simp add: mixed_lane_value drop_bit_eq_div)
  have r: "sint (out_mem m ! (2 * i + 1)) =
      max (- 32768) (min 32767 (sint (out ! (2 * i + 1)) + (sint (data ! i) * uint rvol) div 256))"
    unfolding right by (simp add: mixed_lane_value drop_bit_eq_div)
  have nonneg: "0 \<le> max (- 32768) (min 32767 (sint (0 :: 16 word) + (s * uint v) div 256))"
    if "0 \<le> s" for s :: int and v :: "8 word"
  proof -
    have "0 \<le> s * uint v"
      using that by simp
    then have "0 \<le> (s * uint v) div 256"
      by (simp add: pos_imp_zdiv_nonneg_iff)
    then show ?thesis
      by simp
  qed
  have l0: "0 \<le> sint (out_mem m ! (2 * i))" if "0 \<le> sint (data ! i)" "out ! (2 * i) = 0"
    unfolding l that(2) using that(1) by (rule nonneg)
  have r0: "0 \<le> sint (out_mem m ! (2 * i + 1))"
    if "0 \<le> sint (data ! i)" "out ! (2 * i + 1) = 0"
    unfolding r that(2) using that(1) by (rule nonneg)
  show ?thesis
    using lanes [of lvol] lanes [of rvol] run l r l0 r0 by blast
qed

theorem scale_factor_is_volume_witness:
  "map_option (\<lambda>out'. (sint (out' ! 0), sint (out' ! 1)))
     (output_of (MixChannels_NEON [0, 0, 0, 0, 0, 0, 0, 0, 0, 0, 0, 0, 0, 0, 0, 0]
                   [100, 0, 0, 0, 0, 0, 0, 0] 255 128 8))
     = Some (99, 50)"
proof -
  let ?out = "[0, 0, 0, 0, 0, 0, 0, 0, 0, 0, 0, 0, 0, 0, 0, 0] :: 16 word list"
  let ?data = "[100, 0, 0, 0, 0, 0, 0, 0] :: 8 word list"
  have "\<exists>m. MixChannels_NEON ?out ?data 255 128 8 = Inr m \<and>
     sint (out_mem m ! (2 * 0)) =
       max (- 32768) (min 32767 (sint (?out ! (2 * 0)) + (sint (?data ! 0) * uint (255 :: 8 word)) div 256)) \<and>
     sint (out_mem m ! (2 * 0 + 1)) =
       max (- 32768) (min 32767 (sint (?out ! (2 * 0 + 1)) + (sint (?data ! 0) * uint (128 :: 8 word)) div 256))"
    using scale_factor_is_volume [of ?out ?data 0 255 128 8] by auto
  then show ?thesis
    by (auto simp: output_of_def)
qed

text \<open>
  C6. For every sample \<open>s\<close> in \<open>[-128, 127]\<close> (every value of \<^verbatim>\<open>int8_t\<close>) and every
  volume \<open>f\<close> in \<open>[0, 255]\<close>, the product \<open>s * f\<close> fits the 16-bit lane in which the
  function multiplies, and the contribution the function adds to an output sample is
  the exact integer \<open>(s * f) >> 8\<close>: in the output of a call, the left sample of frame
  \<open>i\<close> is the saturation of the old sample plus \<open>(data[i] * lvol) >> 8\<close>, the right
  sample the same with \<open>rvol\<close>, and where the old sample is 0 the new sample is the
  contribution itself.
\<close>

theorem scaled_contribution_exact:
  assumes "16 \<le> length out" "8 \<le> length data" "i < 8"
  shows "- 32768 \<le> sint (data ! i) * uint lvol \<and> sint (data ! i) * uint lvol \<le> 32767 \<and>
         - 32768 \<le> sint (data ! i) * uint rvol \<and> sint (data ! i) * uint rvol \<le> 32767 \<and>
         (\<exists>m. MixChannels_NEON out data lvol rvol len = Inr m \<and>
           out_mem m ! (2 * i) =
             SignedSat16 (sint (out ! (2 * i)) + drop_bit 8 (sint (data ! i) * uint lvol)) \<and>
           out_mem m ! (2 * i + 1) =
             SignedSat16 (sint (out ! (2 * i + 1)) + drop_bit 8 (sint (data ! i) * uint rvol)) \<and>
           (out ! (2 * i) = 0 \<longrightarrow>
              sint (out_mem m ! (2 * i)) = drop_bit 8 (sint (data ! i) * uint lvol)) \<and>
           (out ! (2 * i + 1) = 0 \<longrightarrow>
              sint (out_mem m ! (2 * i + 1)) = drop_bit 8 (sint (data ! i) * uint rvol)))"
proof -
  have fits: "- 32768 \<le> sint s * uint v \<and> sint s * uint v \<le> 32767" for s v :: "8 word"
    using product_bounds [of "sint s" "uint v"] sint8_bounds [of s] uint8_bounds [of v]
    by linarith
  obtain m where run: "MixChannels_NEON out data lvol rvol len = Inr m"
    and left: "out_mem m ! (2 * i) =
                SignedSat16 (sint (signed_drop_bit 8 (scast (data ! i) * ucast lvol :: 16 word))
                             + sint (out ! (2 * i)))"
    and right: "out_mem m ! (2 * i + 1) =
                SignedSat16 (sint (signed_drop_bit 8 (scast (data ! i) * ucast rvol :: 16 word))
                             + sint (out ! (2 * i + 1)))"
    using MixChannels_NEON_samples [OF assms(1,2), of lvol rvol len] assms(3) by blast
  have l: "out_mem m ! (2 * i) =
             SignedSat16 (sint (out ! (2 * i)) + drop_bit 8 (sint (data ! i) * uint lvol))"
    unfolding left by (simp add: sint_shift_lane drop_bit_eq_div add.commute)
  have r: "out_mem m ! (2 * i + 1) =
             SignedSat16 (sint (out ! (2 * i + 1)) + drop_bit 8 (sint (data ! i) * uint rvol))"
    unfolding right by (simp add: sint_shift_lane drop_bit_eq_div add.commute)
  have zero: "sint (SignedSat16 (sint (0 :: 16 word) + drop_bit 8 (sint s * uint v)))
                = drop_bit 8 (sint s * uint v)" for s v :: "8 word"
    using shifted_product_bounds [of s v] by (simp add: SignedSat16_sint)
  have l0: "sint (out_mem m ! (2 * i)) = drop_bit 8 (sint (data ! i) * uint lvol)"
    if "out ! (2 * i) = 0"
    unfolding l that by (rule zero)
  have r0: "sint (out_mem m ! (2 * i + 1)) = drop_bit 8 (sint (data ! i) * uint rvol)"
    if "out ! (2 * i + 1) = 0"
    unfolding r that by (rule zero)
  show ?thesis
    using fits [of "data ! i" lvol] fits [of "data ! i" rvol] run l r l0 r0 by blast
qed

theorem scaled_contribution_exact_witness:
  "map_option (\<lambda>out'. (sint (out' ! 0), sint (out' ! 1)))
     (output_of (MixChannels_NEON [0, 0, 0, 0, 0, 0, 0, 0, 0, 0, 0, 0, 0, 0, 0, 0]
                   [- 128, 0, 0, 0, 0, 0, 0, 0] 255 128 8))
     = Some (- 128, - 64)"
proof -
  let ?out = "[0, 0, 0, 0, 0, 0, 0, 0, 0, 0, 0, 0, 0, 0, 0, 0] :: 16 word list"
  let ?data = "[- 128, 0, 0, 0, 0, 0, 0, 0] :: 8 word list"
  obtain m where "MixChannels_NEON ?out ?data 255 128 8 = Inr m"
    "sint (out_mem m ! (2 * 0)) = drop_bit 8 (sint (?data ! 0) * uint (255 :: 8 word))"
    "sint (out_mem m ! (2 * 0 + 1)) = drop_bit 8 (sint (?data ! 0) * uint (128 :: 8 word))"
    using scaled_contribution_exact [of ?out ?data 0 255 128 8] by auto
  then show ?thesis
    by (simp add: output_of_def drop_bit_eq_div)
qed

text \<open>
  C7. With \<open>lvol = 0\<close> and \<open>rvol = 0\<close> a call leaves the output buffer unchanged, bit for
  bit, for every source block and every output contents. Three facts say so. When the
  buffers are long enough for the vector loads (sixteen output values, eight source
  samples), the call runs to its end and the output buffer is the one it started
  with. Whatever the buffers, a call that runs to its end leaves the output as it was.
  And a call that does not run to its end never stopped at the store: it stopped at a
  load, and the one store of the function comes after both loads, so nothing was
  written.
\<close>

theorem silence_preserving:
  "(16 \<le> length out \<and> 8 \<le> length data \<longrightarrow>
      output_of (MixChannels_NEON out data 0 0 len) = Some out) \<and>
   (\<forall>m. MixChannels_NEON out data 0 0 len = Inr m \<longrightarrow> out_mem m = out) \<and>
   (\<forall>k. MixChannels_NEON out data 0 0 len \<noteq> Inl (OutOfBounds (StoreOut k)))"
proof -
  have run: "MixChannels_NEON out data 0 0 len =
        Inr \<lparr>out_mem = out, data_mem = data,
             accesses = map LoadOut [0..<16] @ map LoadData [0..<8] @ map StoreOut [0..<16]\<rparr>"
    if "16 \<le> length out" "8 \<le> length data"
    using that interleave_deinterleave [of 8 out]
    by (simp add: MixChannels_NEON_run SignedSat16_of_sint del: upt_rec_numeral)
  show ?thesis
  proof (cases "16 \<le> length out \<and> 8 \<le> length data")
    case True
    then show ?thesis
      using run by (simp add: output_of_def)
  next
    case False
    then consider "length out < 16" | "16 \<le> length out" "length data < 8"
      by linarith
    then show ?thesis
    proof cases
      case 1
      then show ?thesis
        by (simp add: MixChannels_NEON_short_out)
    next
      case 2
      then show ?thesis
        by (simp add: MixChannels_NEON_short_data)
    qed
  qed
qed

theorem silence_preserving_witness:
  "output_of (MixChannels_NEON [1, - 2, 3, - 4, 5, - 6, 7, - 8, 9, 10, 11, 12, 13, 14, 15, 16, 17]
                [100, - 128, 127, 1, - 1, 50, - 50, 0, 99] 0 0 9)
     = Some [1, - 2, 3, - 4, 5, - 6, 7, - 8, 9, 10, 11, 12, 13, 14, 15, 16, 17]"
  using silence_preserving
    [of "[1, - 2, 3, - 4, 5, - 6, 7, - 8, 9, 10, 11, 12, 13, 14, 15, 16, 17]"
        "[100, - 128, 127, 1, - 1, 50, - 50, 0, 99]" 9]
  by simp

text \<open>
  C3. For every call that mixes (buffers long enough for the vector loads) and every
  frame \<open>i\<close> of the eight, the left and the right output sample are the exact integer
  sum of the old sample and the scaled contribution, clamped to \<open>[-32768, 32767]\<close>: the
  sum saturates and never wraps, and every sample produced lies in that range. In
  particular, with \<open>lvol = 255\<close>, source sample \<open>-128\<close> and old output sample
  \<open>-32768\<close> the new output sample is \<open>-32768\<close>.
\<close>

theorem mix_saturates:
  assumes "16 \<le> length out" "8 \<le> length data" "i < 8"
  shows "\<exists>m. MixChannels_NEON out data lvol rvol len = Inr m \<and>
           sint (out_mem m ! (2 * i)) =
             max (- 32768) (min 32767 (sint (out ! (2 * i))
                                        + drop_bit 8 (sint (data ! i) * uint lvol))) \<and>
           sint (out_mem m ! (2 * i + 1)) =
             max (- 32768) (min 32767 (sint (out ! (2 * i + 1))
                                        + drop_bit 8 (sint (data ! i) * uint rvol))) \<and>
           - 32768 \<le> sint (out_mem m ! (2 * i)) \<and> sint (out_mem m ! (2 * i)) \<le> 32767 \<and>
           - 32768 \<le> sint (out_mem m ! (2 * i + 1)) \<and> sint (out_mem m ! (2 * i + 1)) \<le> 32767 \<and>
           (lvol = 255 \<and> data ! i = - 128 \<and> out ! (2 * i) = - 32768 \<longrightarrow>
              out_mem m ! (2 * i) = - 32768)"
proof -
  obtain m where run: "MixChannels_NEON out data lvol rvol len = Inr m"
    and left: "out_mem m ! (2 * i) =
                SignedSat16 (sint (signed_drop_bit 8 (scast (data ! i) * ucast lvol :: 16 word))
                             + sint (out ! (2 * i)))"
    and right: "out_mem m ! (2 * i + 1) =
                SignedSat16 (sint (signed_drop_bit 8 (scast (data ! i) * ucast rvol :: 16 word))
                             + sint (out ! (2 * i + 1)))"
    using MixChannels_NEON_samples [OF assms(1,2), of lvol rvol len] assms(3) by blast
  have l: "sint (out_mem m ! (2 * i)) =
             max (- 32768) (min 32767 (sint (out ! (2 * i))
                                        + drop_bit 8 (sint (data ! i) * uint lvol)))"
    unfolding left by (rule mixed_lane_value)
  have r: "sint (out_mem m ! (2 * i + 1)) =
             max (- 32768) (min 32767 (sint (out ! (2 * i + 1))
                                        + drop_bit 8 (sint (data ! i) * uint rvol)))"
    unfolding right by (rule mixed_lane_value)
  have ex: "out_mem m ! (2 * i) = - 32768"
    if "lvol = 255" "data ! i = - 128" "out ! (2 * i) = - 32768"
    unfolding left using that by (simp add: sint_shift_lane SignedSat16_def)
  show ?thesis
    using run l r ex sint16_bounds [of "out_mem m ! (2 * i)"]
      sint16_bounds [of "out_mem m ! (2 * i + 1)"]
    by blast
qed

theorem mix_saturates_witness:
  "map_option (\<lambda>out'. out' ! 0)
     (output_of (MixChannels_NEON [- 32768, 0, 0, 0, 0, 0, 0, 0, 0, 0, 0, 0, 0, 0, 0, 0]
                   [- 128, 0, 0, 0, 0, 0, 0, 0] 255 0 8))
     = Some (- 32768)"
  using mix_saturates
    [of "[- 32768, 0, 0, 0, 0, 0, 0, 0, 0, 0, 0, 0, 0, 0, 0, 0]"
        "[- 128, 0, 0, 0, 0, 0, 0, 0]" 0 255 0 8]
  by (auto simp: output_of_def)

text \<open>
  C9. The function never reads \<open>len\<close>: two calls that differ in \<open>len\<close> only give the
  same result, fault or final memory. A call whose buffers are long enough for the
  vector loads loads exactly the sixteen output values \<open>out[0..15]\<close> and the eight
  source samples \<open>data[0..7]\<close>, stores exactly \<open>out[0..15]\<close>, and its result is the
  result on these sixteen values and eight samples alone, followed by the rest of the
  output buffer as it was.
\<close>

theorem len_is_ignored:
  "MixChannels_NEON out data lvol rvol len = MixChannels_NEON out data lvol rvol len' \<and>
   (16 \<le> length out \<and> 8 \<le> length data \<longrightarrow>
      (\<exists>m m'. MixChannels_NEON out data lvol rvol len = Inr m \<and>
               MixChannels_NEON (take 16 out) (take 8 data) lvol rvol len' = Inr m' \<and>
               length (out_mem m') = 16 \<and>
               out_mem m = out_mem m' @ drop 16 out \<and>
               accesses m =
                 map LoadOut [0..<16] @ map LoadData [0..<8] @ map StoreOut [0..<16]))"
proof
  show "MixChannels_NEON out data lvol rvol len = MixChannels_NEON out data lvol rvol len'"
    by (simp add: MixChannels_NEON_def)
next
  show "16 \<le> length out \<and> 8 \<le> length data \<longrightarrow>
      (\<exists>m m'. MixChannels_NEON out data lvol rvol len = Inr m \<and>
               MixChannels_NEON (take 16 out) (take 8 data) lvol rvol len' = Inr m' \<and>
               length (out_mem m') = 16 \<and>
               out_mem m = out_mem m' @ drop 16 out \<and>
               accesses m =
                 map LoadOut [0..<16] @ map LoadData [0..<8] @ map StoreOut [0..<16])"
  proof
    assume b: "16 \<le> length out \<and> 8 \<le> length data"
    then have b': "16 \<le> length (take 16 out)" "8 \<le> length (take 8 data)"
      by simp_all
    have left: "map (\<lambda>i. SignedSat16
                 (sint (signed_drop_bit 8 (scast (take 8 data ! i) * ucast v :: 16 word))
                  + sint (take 16 out ! (2 * i)))) [0..<8]
          = map (\<lambda>i. SignedSat16
                 (sint (signed_drop_bit 8 (scast (data ! i) * ucast v :: 16 word))
                  + sint (out ! (2 * i)))) [0..<8]" for v :: "8 word"
      by (intro map_cong) auto
    have right: "map (\<lambda>i. SignedSat16
                 (sint (signed_drop_bit 8 (scast (take 8 data ! i) * ucast v :: 16 word))
                  + sint (take 16 out ! Suc (2 * i)))) [0..<8]
          = map (\<lambda>i. SignedSat16
                 (sint (signed_drop_bit 8 (scast (data ! i) * ucast v :: 16 word))
                  + sint (out ! Suc (2 * i)))) [0..<8]" for v :: "8 word"
      by (intro map_cong) auto
    show "\<exists>m m'. MixChannels_NEON out data lvol rvol len = Inr m \<and>
               MixChannels_NEON (take 16 out) (take 8 data) lvol rvol len' = Inr m' \<and>
               length (out_mem m') = 16 \<and>
               out_mem m = out_mem m' @ drop 16 out \<and>
               accesses m =
                 map LoadOut [0..<16] @ map LoadData [0..<8] @ map StoreOut [0..<16]"
      using b
      by (simp add: MixChannels_NEON_run [OF b'] MixChannels_NEON_run left right
            interleave_length del: upt_rec_numeral)
  qed
qed

theorem len_is_ignored_witness:
  "MixChannels_NEON (replicate 20 7) (replicate 12 100) 128 255 3
     = MixChannels_NEON (replicate 20 7) (replicate 12 100) 128 255 12 \<and>
   map_option (drop 16) (output_of (MixChannels_NEON (replicate 20 7) (replicate 12 100) 128 255 3))
     = Some (replicate 4 7)"
proof -
  note inst = len_is_ignored [of "replicate 20 7" "replicate 12 100" 128 255 3 12]
  have long: "16 \<le> length (replicate 20 (7 :: 16 word)) \<and>
              8 \<le> length (replicate 12 (100 :: 8 word))"
    by simp
  from inst [THEN conjunct2, THEN mp, OF long] obtain m and m' :: machine where
    "MixChannels_NEON (replicate 20 7) (replicate 12 100) 128 255 3 = Inr m"
    "length (out_mem m') = 16"
    "out_mem m = out_mem m' @ drop 16 (replicate 20 7)"
    by blast
  then show ?thesis
    using inst [THEN conjunct1] by (simp add: output_of_def)
qed

text \<open>
  C1, as stated, fails: the vector routine mixes eight samples whatever the length is.
  With sixteen source samples, thirty-two output values and length 16 (a valid input
  of the specification), the scalar path mixes all sixteen frames and the vector
  routine only the first eight.
\<close>

theorem vector_differs_from_scalar_on_sixteen:
  "output_of (MixChannels_NEON (replicate 32 0) (replicate 16 100) 128 255 16)
     \<noteq> Some (ScalarFallback (replicate 32 0) (replicate 16 100) 128 255 16)"
  by code_simp

text \<open>
  C1, amended. For every input whose source holds at least eight samples and whose
  output holds at least sixteen values, the vector routine produces exactly the output
  of ScalarFallback run over the first eight samples. In particular the two paths are
  byte-identical for every valid input with length 8.
\<close>

theorem vector_is_scalar_on_eight:
  assumes "16 \<le> length out" "8 \<le> length data"
  shows "output_of (MixChannels_NEON out data lvol rvol len)
           = Some (ScalarFallback out data lvol rvol 8)"
proof -
  have lane: "SignedSat16 (sint (signed_drop_bit 8 (scast s * ucast v :: 16 word)) + sint y)
                = word_of_int (saturate (sint y + ScaleAndShift (sint s) (uint v)))"
    for s v :: "8 word" and y :: "16 word"
    by (simp add: SignedSat16_saturate sint_shift_lane ScaleAndShift_def drop_bit_eq_div
          add.commute)
  show ?thesis
    using assms
    by (simp add: output_of_def MixChannels_NEON_run ScalarFallback_lanes [of 8] lane
          del: upt_rec_numeral)
qed

theorem vector_is_scalar_on_eight_witness:
  "output_of (MixChannels_NEON (replicate 16 0) (replicate 8 100) 128 255 8)
     = Some (ScalarFallback (replicate 16 0) (replicate 8 100) 128 255 8)"
  using vector_is_scalar_on_eight [of "replicate 16 0" "replicate 8 100" 128 255 8]
  by simp

text \<open>
  C2, as stated, fails: with the one-sample source \<open>[100]\<close> and the two-value output
  \<open>[0, 0]\<close> the first statement that touches memory, \<^verbatim>\<open>vld2q_s16(out)\<close>, loads sixteen
  values from a buffer of two. The call has no defined result; it does not end with
  output \<open>[50, 99]\<close>.
\<close>

theorem boundary_example_faults:
  "MixChannels_NEON [0, 0] [100] 128 255 1 = Inl (OutOfBounds (LoadOut 2)) \<and>
   output_of (MixChannels_NEON [0, 0] [100] 128 255 1) \<noteq> Some [50, 99]"
  by (simp add: MixChannels_NEON_short_out output_of_def)

text \<open>
  C2, amended. When the source holds at least eight samples, the first of them 100, and
  the output at least sixteen values, the first two of them 0, a call with
  \<open>lvol = 128\<close> and \<open>rvol = 255\<close> (and any \<open>len\<close>) runs to its end with
  left sample \<open>(100 * 128) >> 8 = 50\<close> and right sample \<open>(100 * 255) >> 8 = 99\<close> in the
  first frame. With the source padded with seven zeros and the output with fourteen,
  the output is \<open>[50, 99, 0, ..., 0]\<close>.
\<close>

theorem boundary_example_padded:
  assumes "16 \<le> length out" "8 \<le> length data"
    and "data ! 0 = 100" "out ! 0 = 0" "out ! 1 = 0"
  shows "\<exists>m. MixChannels_NEON out data 128 255 len = Inr m \<and>
           out_mem m ! 0 = 50 \<and> out_mem m ! 1 = 99"
proof -
  obtain m where run: "MixChannels_NEON out data 128 255 len = Inr m"
    and left: "\<forall>i<8. out_mem m ! (2 * i) =
                SignedSat16 (sint (signed_drop_bit 8 (scast (data ! i) * ucast (128 :: 8 word) :: 16 word))
                             + sint (out ! (2 * i)))"
    and right: "\<forall>i<8. out_mem m ! (2 * i + 1) =
                SignedSat16 (sint (signed_drop_bit 8 (scast (data ! i) * ucast (255 :: 8 word) :: 16 word))
                             + sint (out ! (2 * i + 1)))"
    using MixChannels_NEON_samples [OF assms(1,2), of 128 255 len] by blast
  have "out_mem m ! 0 = 50"
    using left [rule_format, of 0] assms(3,4) by (simp add: sint_shift_lane SignedSat16_def)
  moreover have "out_mem m ! 1 = 99"
    using right [rule_format, of 0] assms(3,5) by (simp add: sint_shift_lane SignedSat16_def)
  ultimately show ?thesis
    using run by blast
qed

theorem boundary_example_padded_witness:
  "output_of (MixChannels_NEON [0, 0, 0, 0, 0, 0, 0, 0, 0, 0, 0, 0, 0, 0, 0, 0]
                [100, 0, 0, 0, 0, 0, 0, 0] 128 255 1)
     = Some [50, 99, 0, 0, 0, 0, 0, 0, 0, 0, 0, 0, 0, 0, 0, 0]"
proof -
  obtain m where
    "MixChannels_NEON [0, 0, 0, 0, 0, 0, 0, 0, 0, 0, 0, 0, 0, 0, 0, 0]
       [100, 0, 0, 0, 0, 0, 0, 0] 128 255 1 = Inr m"
    "out_mem m ! 0 = 50" "out_mem m ! 1 = 99"
    using boundary_example_padded
      [of "[0, 0, 0, 0, 0, 0, 0, 0, 0, 0, 0, 0, 0, 0, 0, 0]" "[100, 0, 0, 0, 0, 0, 0, 0]" 1]
    by auto
  moreover have
    "output_of (MixChannels_NEON [0, 0, 0, 0, 0, 0, 0, 0, 0, 0, 0, 0, 0, 0, 0, 0]
                  [100, 0, 0, 0, 0, 0, 0, 0] 128 255 1)
       = Some [50, 99, 0, 0, 0, 0, 0, 0, 0, 0, 0, 0, 0, 0, 0, 0]"
    by code_simp
  ultimately show ?thesis
    by simp
qed

text \<open>
  C4, as stated, fails: the function validates nothing and has no failure result. A
  call with \<open>len = 4\<close> and a source of eight samples (source length and \<open>len\<close> differ)
  runs to its end and changes the output.
\<close>

theorem mismatched_length_is_mixed:
  "length [100, 0, 0, 0, 0, 0, 0, 0 :: 8 word] \<noteq> 4 \<and>
   output_of (MixChannels_NEON [0, 0, 0, 0, 0, 0, 0, 0, 0, 0, 0, 0, 0, 0, 0, 0]
                [100, 0, 0, 0, 0, 0, 0, 0] 128 255 4)
     = Some [50, 99, 0, 0, 0, 0, 0, 0, 0, 0, 0, 0, 0, 0, 0, 0]"
  by code_simp

text \<open>
  C4, amended. The function compares no lengths and reports no failure; \<open>len\<close> plays no
  part. When the output holds at least sixteen values and the source at least eight
  samples, a call runs to its end with one and the same final memory for every value
  of \<open>len\<close>, also when the source length differs from \<open>len\<close> or the output is shorter
  than \<open>2 * len\<close>.
\<close>

theorem no_length_validation:
  assumes "16 \<le> length out" "8 \<le> length data"
  shows "\<exists>m. (\<forall>len. MixChannels_NEON out data lvol rvol len = Inr m) \<and>
           length (out_mem m) = length out"
proof -
  obtain m where "MixChannels_NEON out data lvol rvol 0 = Inr m"
    and "length (out_mem m) = length out"
    using MixChannels_NEON_samples [OF assms, of lvol rvol 0] by blast
  moreover have "MixChannels_NEON out data lvol rvol len = MixChannels_NEON out data lvol rvol 0"
    for len
    by (simp add: MixChannels_NEON_def)
  ultimately show ?thesis
    by auto
qed

theorem no_length_validation_witness:
  "MixChannels_NEON [0, 0, 0, 0, 0, 0, 0, 0, 0, 0, 0, 0, 0, 0, 0, 0]
     [100, 0, 0, 0, 0, 0, 0, 0] 128 255 4
     = MixChannels_NEON [0, 0, 0, 0, 0, 0, 0, 0, 0, 0, 0, 0, 0, 0, 0, 0]
         [100, 0, 0, 0, 0, 0, 0, 0] 128 255 8 \<and>
   map_option length
     (output_of (MixChannels_NEON [0, 0, 0, 0, 0, 0, 0, 0, 0, 0, 0, 0, 0, 0, 0, 0]
                   [100, 0, 0, 0, 0, 0, 0, 0] 128 255 4))
     = Some 16"
proof -
  obtain m where
    "\<forall>len. MixChannels_NEON [0, 0, 0, 0, 0, 0, 0, 0, 0, 0, 0, 0, 0, 0, 0, 0]
        [100, 0, 0, 0, 0, 0, 0, 0] 128 255 len = Inr m"
    "length (out_mem m) = length [0, 0, 0, 0, 0, 0, 0, 0, 0, 0, 0, 0, 0, 0, 0, 0 :: 16 word]"
    using no_length_validation
      [of "[0, 0, 0, 0, 0, 0, 0, 0, 0, 0, 0, 0, 0, 0, 0, 0]" "[100, 0, 0, 0, 0, 0, 0, 0]" 128 255]
    by auto
  then show ?thesis
    by (simp add: output_of_def)
qed

text \<open>
  C5, as stated, fails for blocks shorter than eight samples. With \<open>N = len = 4\<close> and
  an output of \<open>2 * N = 8\<close> values the load of \<open>out[0..15]\<close> reaches output index 8;
  with a longer output of sixteen values the load of \<open>data[0..7]\<close> reaches source
  index 4. Both lie outside the declared bounds.
\<close>

theorem short_block_reads_past_the_end:
  "MixChannels_NEON (replicate 8 0) (replicate 4 0) 255 255 4 = Inl (OutOfBounds (LoadOut 8)) \<and>
   \<not> within_declared_bounds 4 (LoadOut 8) \<and>
   MixChannels_NEON (replicate 16 0) (replicate 4 0) 255 255 4 = Inl (OutOfBounds (LoadData 4)) \<and>
   \<not> within_declared_bounds 4 (LoadData 4)"
  by (simp add: MixChannels_NEON_short_out MixChannels_NEON_short_data)

text \<open>
  C5, amended. For every call with source length \<open>N\<close>, output length at least \<open>2 * N\<close>
  and \<open>N\<close> at least 8, the call runs to its end, reads exactly source indices \<open>0..7\<close> and
  reads and writes exactly output indices \<open>0..15\<close>, and all of these lie within the
  declared bounds \<open>0..N-1\<close> and \<open>0..2N-1\<close>.
\<close>

theorem accesses_within_bounds_from_eight:
  assumes "length data = N" "2 * N \<le> length out" "8 \<le> N"
  shows "\<exists>m. MixChannels_NEON out data lvol rvol len = Inr m \<and>
           accesses m = map LoadOut [0..<16] @ map LoadData [0..<8] @ map StoreOut [0..<16] \<and>
           (\<forall>a \<in> set (accesses m). within_declared_bounds N a)"
proof -
  have "16 \<le> length out" "8 \<le> length data"
    using assms by simp_all
  then show ?thesis
    using assms(3) by (auto simp: MixChannels_NEON_run simp del: upt_rec_numeral)
qed

theorem accesses_within_bounds_from_eight_witness:
  "accesses_of (MixChannels_NEON (replicate 18 0) (replicate 9 100) 128 255 9)
     = Some (map LoadOut [0..<16] @ map LoadData [0..<8] @ map StoreOut [0..<16]) \<and>
   list_all (within_declared_bounds 9)
     (map LoadOut [0..<16] @ map LoadData [0..<8] @ map StoreOut [0..<16])"
proof -
  obtain m where
    "MixChannels_NEON (replicate 18 0) (replicate 9 100) 128 255 9 = Inr m"
    "accesses m = map LoadOut [0..<16] @ map LoadData [0..<8] @ map StoreOut [0..<16]"
    "\<forall>a \<in> set (accesses m). within_declared_bounds 9 a"
    using accesses_within_bounds_from_eight
      [of "replicate 9 100" 9 "replicate 18 0" 128 255 9]
    by auto
  then show ?thesis
    by (simp add: accesses_of_def list_all_iff del: upt_rec_numeral)
qed

text \<open>
  C8, as stated, fails: the function computes \<^verbatim>\<open>mixed_r\<close> from \<open>rvol\<close>, adds it to the
  odd-index lanes and stores them. With \<open>lvol = 0\<close>, \<open>rvol = 255\<close> and first source
  sample 100, the right sample of the first frame goes from 0 to 99.
\<close>

theorem right_channel_is_written:
  "output_of (MixChannels_NEON [0, 0, 0, 0, 0, 0, 0, 0, 0, 0, 0, 0, 0, 0, 0, 0]
                [100, 0, 0, 0, 0, 0, 0, 0] 0 255 8)
     = Some [0, 99, 0, 0, 0, 0, 0, 0, 0, 0, 0, 0, 0, 0, 0, 0]"
  by code_simp

text \<open>
  C8, amended. A call writes both channels. For each of the first eight frames \<open>i\<close> the
  right-channel sample (index \<open>2 * i + 1\<close>) becomes the old sample plus
  \<open>(data[i] * rvol) >> 8\<close>, clamped to \<open>[-32768, 32767]\<close>; the right-channel samples
  keep their values when \<open>rvol = 0\<close>, and every output value from index 16 on is left
  as it was.
\<close>

theorem right_channel_mixed:
  assumes "16 \<le> length out" "8 \<le> length data"
  shows "\<exists>m. MixChannels_NEON out data lvol rvol len = Inr m \<and>
           (\<forall>i<8. sint (out_mem m ! (2 * i + 1)) =
              max (- 32768) (min 32767 (sint (out ! (2 * i + 1))
                                         + drop_bit 8 (sint (data ! i) * uint rvol)))) \<and>
           (rvol = 0 \<longrightarrow> (\<forall>i<8. out_mem m ! (2 * i + 1) = out ! (2 * i + 1))) \<and>
           (\<forall>j\<ge>16. out_mem m ! j = out ! j)"
proof -
  obtain m where run: "MixChannels_NEON out data lvol rvol len = Inr m"
    and right: "\<forall>i<8. out_mem m ! (2 * i + 1) =
                SignedSat16 (sint (signed_drop_bit 8 (scast (data ! i) * ucast rvol :: 16 word))
                             + sint (out ! (2 * i + 1)))"
    and rest: "\<forall>j\<ge>16. out_mem m ! j = out ! j"
    using MixChannels_NEON_samples [OF assms, of lvol rvol len] by blast
  have "sint (out_mem m ! (2 * i + 1)) =
          max (- 32768) (min 32767 (sint (out ! (2 * i + 1))
                                     + drop_bit 8 (sint (data ! i) * uint rvol)))"
    if "i < 8" for i
    using right that by (simp only: mixed_lane_value)
  moreover have "out_mem m ! (2 * i + 1) = out ! (2 * i + 1)" if "i < 8" "rvol = 0" for i
    using right that by (simp add: SignedSat16_of_sint)
  ultimately show ?thesis
    using run rest by blast
qed

theorem right_channel_mixed_witness:
  "map_option (\<lambda>out'. sint (out' ! 1))
     (output_of (MixChannels_NEON [0, 0, 0, 0, 0, 0, 0, 0, 0, 0, 0, 0, 0, 0, 0, 0]
                   [100, 0, 0, 0, 0, 0, 0, 0] 0 255 8))
     = Some 99"
proof -
  let ?out = "[0, 0, 0, 0, 0, 0, 0, 0, 0, 0, 0, 0, 0, 0, 0, 0] :: 16 word list"
  let ?data = "[100, 0, 0, 0, 0, 0, 0, 0] :: 8 word list"
  obtain m where run: "MixChannels_NEON ?out ?data 0 255 8 = Inr m"
    and right: "\<forall>i<8. sint (out_mem m ! (2 * i + 1)) =
              max (- 32768) (min 32767 (sint (?out ! (2 * i + 1))
                                         + drop_bit 8 (sint (?data ! i) * uint (255 :: 8 word))))"
    using right_channel_mixed [of ?out ?data 0 255 8] by auto
  have "sint (out_mem m ! 1) = 99"
    using right [rule_format, of 0] by simp
  then show ?thesis
    using run by (simp add: output_of_def)
qed

end
